theory Spec2Isabelle
  imports Complex_Main
begin

section \<open>Python values used by the scorers\<close>

text \<open>
  A Python float is modelled as an exact real or one of the three IEEE special values.
  Rounding is not modelled: finite arithmetic is exact. The scores the behavioural
  scorer can produce are the sums 0.0, 0.2, 0.4, 0.6, 0.8 and 1.0, and in double
  precision \<open>0.0 + 0.6 >= 0.6\<close> is true and \<open>0.0 + 0.2 + 0.2 >= 0.6\<close> is false, as for
  the exact sums.
\<close>

datatype pyfloat = Fin real | PInf | NInf | NaN

text \<open>The exceptions that can leave the modelled functions.\<close>

datatype error =
    ValueError
  | TypeError
  | ZeroDivisionError
  | RuntimeError string
  | OtherError string

text \<open>
  A cell of a pandas frame (and an index label): \<open>None\<close>, a bool, a number (int or
  float, both read through \<open>float(...)\<close> by the scorer) or a str.
\<close>

datatype pyval = PNone | PBool bool | PNum pyfloat | PStr string

text \<open>Comparison of floats: every comparison with NaN is False.\<close>

fun f_lt :: "pyfloat \<Rightarrow> pyfloat \<Rightarrow> bool" where
  "f_lt NaN _ = False"
| "f_lt _ NaN = False"
| "f_lt (Fin a) (Fin b) = (a < b)"
| "f_lt NInf b = (b \<noteq> NInf)"
| "f_lt a PInf = (a \<noteq> PInf)"
| "f_lt _ _ = False"

definition f_le :: "pyfloat \<Rightarrow> pyfloat \<Rightarrow> bool" where
  "f_le a b = (f_lt a b \<or> (a = b \<and> a \<noteq> NaN))"

definition f_gt :: "pyfloat \<Rightarrow> pyfloat \<Rightarrow> bool" where
  "f_gt a b = f_lt b a"

definition f_ge :: "pyfloat \<Rightarrow> pyfloat \<Rightarrow> bool" where
  "f_ge a b = f_le b a"

text \<open>
  \<open>a / b\<close> on Python floats: a zero divisor raises ZeroDivisionError whatever the
  dividend is; otherwise the IEEE result.
\<close>

fun py_truediv :: "pyfloat \<Rightarrow> pyfloat \<Rightarrow> error + pyfloat" where
  "py_truediv a (Fin b) =
     (if b = 0 then Inl ZeroDivisionError
      else (case a of
              Fin x \<Rightarrow> Inr (Fin (x / b))
            | PInf \<Rightarrow> Inr (if 0 < b then PInf else NInf)
            | NInf \<Rightarrow> Inr (if 0 < b then NInf else PInf)
            | NaN \<Rightarrow> Inr NaN))"
| "py_truediv (Fin x) PInf = Inr (Fin 0)"
| "py_truediv (Fin x) NInf = Inr (Fin 0)"
| "py_truediv a b = Inr NaN"

fun f_mul :: "pyfloat \<Rightarrow> pyfloat \<Rightarrow> pyfloat" where
  "f_mul NaN _ = NaN"
| "f_mul _ NaN = NaN"
| "f_mul (Fin a) (Fin b) = Fin (a * b)"
| "f_mul (Fin a) PInf = (if a = 0 then NaN else if 0 < a then PInf else NInf)"
| "f_mul (Fin a) NInf = (if a = 0 then NaN else if 0 < a then NInf else PInf)"
| "f_mul PInf (Fin b) = (if b = 0 then NaN else if 0 < b then PInf else NInf)"
| "f_mul NInf (Fin b) = (if b = 0 then NaN else if 0 < b then NInf else PInf)"
| "f_mul PInf PInf = PInf"
| "f_mul NInf NInf = PInf"
| "f_mul PInf NInf = NInf"
| "f_mul NInf PInf = NInf"

fun f_add :: "pyfloat \<Rightarrow> pyfloat \<Rightarrow> pyfloat" where
  "f_add NaN _ = NaN"
| "f_add _ NaN = NaN"
| "f_add (Fin a) (Fin b) = Fin (a + b)"
| "f_add PInf NInf = NaN"
| "f_add NInf PInf = NaN"
| "f_add PInf _ = PInf"
| "f_add _ PInf = PInf"
| "f_add NInf _ = NInf"
| "f_add _ NInf = NInf"

text \<open>Truth value of an operand of \<open>or\<close>: None, False, zero and the empty str are
  falsy; NaN and the infinities are truthy.\<close>

fun truthy :: "pyval \<Rightarrow> bool" where
  "truthy PNone = False"
| "truthy (PBool b) = b"
| "truthy (PNum x) = (x \<noteq> Fin 0)"
| "truthy (PStr s) = (s \<noteq> [])"

text \<open>
  \<open>float(v)\<close>. The conversion of a str is Python's built-in parser, which is not part
  of the repository: it is the parameter \<open>float_str\<close>, where \<open>None\<close> stands for the
  ValueError that \<open>float\<close> raises on a str it cannot convert.
\<close>

type_synonym str_parser = "string \<Rightarrow> pyfloat option"

fun py_float :: "str_parser \<Rightarrow> pyval \<Rightarrow> error + pyfloat" where
  "py_float float_str PNone = Inl TypeError"
| "py_float float_str (PBool b) = Inr (Fin (if b then 1 else 0))"
| "py_float float_str (PNum x) = Inr x"
| "py_float float_str (PStr s) =
     (case float_str s of None \<Rightarrow> Inl ValueError | Some x \<Rightarrow> Inr x)"

text \<open>
  A frame row as \<open>iterrows\<close> yields it: a Series of (column name, cell) pairs;
  \<open>row.get(key, default)\<close> is the cell under the key, or the default when the frame
  has no such column.
\<close>

type_synonym series = "(string \<times> pyval) list"

definition row_get :: "series \<Rightarrow> string \<Rightarrow> pyval \<Rightarrow> pyval" where
  "row_get row key dflt = (case map_of row key of None \<Rightarrow> dflt | Some v \<Rightarrow> v)"

text \<open>
  A pandas DataFrame: its column names and, for each row, the index label and the
  cells in column order. \<open>df.empty\<close> holds when an axis has length zero.
\<close>

record dataframe =
  df_columns :: "string list"
  df_rows :: "(pyval \<times> pyval list) list"

definition df_empty :: "dataframe \<Rightarrow> bool" where
  "df_empty d = (df_rows d = [] \<or> df_columns d = [])"

definition iterrows :: "dataframe \<Rightarrow> (pyval \<times> series) list" where
  "iterrows d = map (\<lambda>(idx, cells). (idx, zip (df_columns d) cells)) (df_rows d)"

text \<open>\<open>idx == 0\<close> for an index label: the numbers 0 and 0.0 and False equal 0.\<close>

fun eq_zero :: "pyval \<Rightarrow> bool" where
  "eq_zero (PNum x) = (x = Fin 0)"
| "eq_zero (PBool b) = (\<not> b)"
| "eq_zero _ = False"

section \<open>Behavioural scorer (behav\_model.py)\<close>

definition BEHAV_THRESHOLD :: real where
  "BEHAV_THRESHOLD = 0.6"

text \<open>The seven local variables that lines 22 to 29 of \<open>_compute_behav_score\<close> set.\<close>

record behav_locals =
  total :: pyfloat
  n_proc :: pyfloat
  n_file :: pyfloat
  n_net :: pyfloat
  ratio_proc :: pyfloat
  ratio_file :: pyfloat
  ratio_net :: pyfloat

text \<open>\<open>float(row.get(key, 0) or 0)\<close>\<close>

definition coerce_count :: "str_parser \<Rightarrow> series \<Rightarrow> string \<Rightarrow> error + pyfloat" where
  "coerce_count float_str row key =
     (let v = row_get row key (PNum (Fin 0))
      in py_float float_str (if truthy v then v else PNum (Fin 0)))"

text \<open>\<open>float(row.get(key, 0) or (n / total if total > 0 else 0))\<close>: the right operand
  of \<open>or\<close> is evaluated only when the left one is falsy.\<close>

definition coerce_ratio ::
  "str_parser \<Rightarrow> series \<Rightarrow> string \<Rightarrow> pyfloat \<Rightarrow> pyfloat \<Rightarrow> error + pyfloat" where
  "coerce_ratio float_str row key n tot =
     (let v = row_get row key (PNum (Fin 0))
      in if truthy v then py_float float_str v
         else if f_gt tot (Fin 0) then
           (case py_truediv n tot of
              Inl e \<Rightarrow> Inl e
            | Inr q \<Rightarrow> py_float float_str (PNum q))
         else py_float float_str (PNum (Fin 0)))"

text \<open>Sequencing of statements that may raise: the first exception ends the function.\<close>

definition try_then :: "error + 'a \<Rightarrow> ('a \<Rightarrow> error + 'b) \<Rightarrow> error + 'b" where
  "try_then m f = (case m of Inl e \<Rightarrow> Inl e | Inr x \<Rightarrow> f x)"

definition read_locals :: "str_parser \<Rightarrow> series \<Rightarrow> error + behav_locals" where
  "read_locals float_str row =
     try_then (coerce_count float_str row ''total_events'') (\<lambda>tot.
     try_then (coerce_count float_str row ''n_proc_create'') (\<lambda>np.
     try_then (coerce_count float_str row ''n_file_create'') (\<lambda>nf.
     try_then (coerce_count float_str row ''n_net_conn'') (\<lambda>nn.
     try_then (coerce_ratio float_str row ''ratio_proc_create'' np tot) (\<lambda>rp.
     try_then (coerce_ratio float_str row ''ratio_file_create'' nf tot) (\<lambda>rf.
     try_then (coerce_ratio float_str row ''ratio_net_conn'' nn tot) (\<lambda>rn.
       Inr \<lparr>total = tot, n_proc = np, n_file = nf, n_net = nn,
            ratio_proc = rp, ratio_file = rf, ratio_net = rn\<rparr>)))))))"

text \<open>The four reason strings of the scorer.\<close>

definition reason_file :: string where
  "reason_file = ''Unusually high proportion of file-creation events, consistent with mass file modification or encryption behaviour.''"

definition reason_net :: string where
  "reason_net = ''Network connection events detected, suggesting potential propagation or command-and-control communication.''"

definition reason_proc :: string where
  "reason_proc = ''Multiple process creation events observed, which may indicate process spawning or code injection behaviour.''"

definition reason_normal :: string where
  "reason_normal = ''Behavioural activity appears within normal ranges typically observed in benign software.''"

text \<open>Lines 31 to 66: the three rules update \<open>score\<close> and \<open>reasons\<close> in turn.\<close>

definition apply_rules :: "behav_locals \<Rightarrow> real \<times> string list" where
  "apply_rules L =
     (let score = 0; reasons = [];
          (score, reasons) =
            (if f_gt (n_file L) (Fin 1000) \<or> f_gt (ratio_file L) (Fin 0.5)
             then (score + 0.6, reasons @ [reason_file]) else (score, reasons));
          (score, reasons) =
            (if f_gt (n_net L) (Fin 5) \<or> f_gt (ratio_net L) (Fin 0.02)
             then (score + 0.2, reasons @ [reason_net]) else (score, reasons));
          (score, reasons) =
            (if f_gt (n_proc L) (Fin 10) \<or> f_gt (ratio_proc L) (Fin 0.02)
             then (score + 0.2, reasons @ [reason_proc]) else (score, reasons));
          score = max 0 (min score 1);
          reasons = (if reasons = [] then reasons @ [reason_normal] else reasons)
      in (score, reasons))"

text \<open>\<open>_compute_behav_score(row)\<close> (the name without its leading underscore): the
  locals are read, then the rules applied; an exception while reading leaves the
  function.\<close>

definition compute_behav_score :: "str_parser \<Rightarrow> series \<Rightarrow> error + (real \<times> string list)" where
  "compute_behav_score float_str row =
     (case read_locals float_str row of
        Inl e \<Rightarrow> Inl e
      | Inr L \<Rightarrow> Inr (apply_rules L))"

text \<open>
  The loop of \<open>predict_behav\<close> over \<open>df.iterrows()\<close>, with its two variables
  \<open>probs_list\<close> and \<open>reasons_for_first\<close>. An exception of a row ends the loop.
\<close>

fun score_rows ::
  "str_parser \<Rightarrow> (pyval \<times> series) list \<Rightarrow> real list \<Rightarrow> string list
     \<Rightarrow> error + (real list \<times> string list)" where
  "score_rows float_str [] probs_list reasons_for_first = Inr (probs_list, reasons_for_first)"
| "score_rows float_str ((idx, row) # rest) probs_list reasons_for_first =
     (case compute_behav_score float_str row of
        Inl e \<Rightarrow> Inl e
      | Inr (score, reasons) \<Rightarrow>
          score_rows float_str rest (probs_list @ [score])
            (if eq_zero idx then reasons else reasons_for_first))"

text \<open>
  \<open>predict_behav(df)\<close> returns \<open>(probs, preds, threshold, reasons)\<close>; for \<open>None\<close>
  or an empty frame it returns the fixed result below.
\<close>

type_synonym score_result = "real list \<times> int list \<times> real \<times> string list"

definition no_events_result :: score_result where
  "no_events_result =
     ([0], [0], BEHAV_THRESHOLD, [''No behavioural events available for analysis.''])"

definition predict_behav :: "str_parser \<Rightarrow> dataframe option \<Rightarrow> error + score_result" where
  "predict_behav float_str df =
     (case df of
        None \<Rightarrow> Inr no_events_result
      | Some d \<Rightarrow>
          if df_empty d then Inr no_events_result
          else
            (case score_rows float_str (iterrows d) [] [] of
               Inl e \<Rightarrow> Inl e
             | Inr (probs_list, reasons_for_first) \<Rightarrow>
                 Inr (probs_list,
                      map (\<lambda>p. if BEHAV_THRESHOLD \<le> p then 1 else 0) probs_list,
                      BEHAV_THRESHOLD,
                      reasons_for_first)))"

section \<open>Fusion (app.py)\<close>

definition FUSION_WEIGHTS :: "real \<times> real" where
  "FUSION_WEIGHTS = (0.6, 0.4)"

definition FUSION_THRESHOLD :: real where
  "FUSION_THRESHOLD = 0.50"

definition risk_band_from_prob :: "pyfloat \<Rightarrow> string" where
  "risk_band_from_prob p =
     (if f_lt p (Fin 0.30) then ''Safe''
      else if f_le p (Fin 0.70) then ''Caution''
      else ''High Risk'')"

text \<open>\<open>float(probs.mean())\<close> on a numpy array: the mean of an empty array is NaN
  (numpy warns, it does not raise).\<close>

definition np_mean :: "real list \<Rightarrow> pyfloat" where
  "np_mean xs = (if xs = [] then NaN else Fin (sum_list xs / real (length xs)))"

text \<open>The \<open>debug_info\<close> dict, one field for each key the function may set.\<close>

record debug_info =
  dbg_behavioral :: "(real \<times> pyfloat) option"
  dbg_behavioral_error :: "error option"
  dbg_static :: "(real \<times> pyfloat) option"
  dbg_static_error :: "error option"
  dbg_risk_band :: "string option"
  dbg_reasons :: "string list option"

definition empty_debug :: debug_info where
  "empty_debug = \<lparr>dbg_behavioral = None, dbg_behavioral_error = None, dbg_static = None,
     dbg_static_error = None, dbg_risk_band = None, dbg_reasons = None\<rparr>"

text \<open>Lines 106 to 113: the loop over \<open>final_reasons\<close> with the set \<open>seen\<close>, the
  list \<open>reasons\<close> and the \<open>break\<close> once three reasons are kept.\<close>

fun dedup_loop :: "string list \<Rightarrow> string set \<Rightarrow> string list \<Rightarrow> string list" where
  "dedup_loop [] seen reasons = reasons"
| "dedup_loop (r # rest) seen reasons =
     (let (seen', reasons') =
            (if r \<notin> seen then (insert r seen, reasons @ [r]) else (seen, reasons))
      in if length reasons' = 3 then reasons' else dedup_loop rest seen' reasons')"

text \<open>
  \<open>combine_model_outputs(df)\<close>. \<open>predict_static\<close> runs a trained classifier loaded
  from a file outside the repository, so it is a parameter: any function from the
  frame to an exception or a score result.
\<close>

type_synonym static_scorer = "dataframe option \<Rightarrow> error + score_result"

definition combine_model_outputs ::
  "str_parser \<Rightarrow> static_scorer \<Rightarrow> dataframe option
     \<Rightarrow> error + (pyfloat \<times> string \<times> debug_info)" where
  "combine_model_outputs float_str predict_static df =
     (let final_reasons = []; debug = empty_debug;
          (behav_prob, final_reasons, debug) =
            (case predict_behav float_str df of
               Inr (b_probs, b_preds, b_thr, b_reasons) \<Rightarrow>
                 (Some (np_mean b_probs), final_reasons @ b_reasons,
                  debug\<lparr>dbg_behavioral := Some (b_thr, np_mean b_probs)\<rparr>)
             | Inl e \<Rightarrow> (None, final_reasons, debug\<lparr>dbg_behavioral_error := Some e\<rparr>));
          (static_prob, final_reasons, debug) =
            (case predict_static df of
               Inr (s_probs, s_preds, s_thr, s_reasons) \<Rightarrow>
                 (Some (np_mean s_probs), final_reasons @ s_reasons,
                  debug\<lparr>dbg_static := Some (s_thr, np_mean s_probs)\<rparr>)
             | Inl e \<Rightarrow> (None, final_reasons, debug\<lparr>dbg_static_error := Some e\<rparr>));
          fused =
            (case (static_prob, behav_prob) of
               (Some s, Some b) \<Rightarrow>
                 Inr (f_add (f_mul (Fin (fst FUSION_WEIGHTS)) s)
                            (f_mul (Fin (snd FUSION_WEIGHTS)) b))
             | (Some s, None) \<Rightarrow> Inr s
             | (None, Some b) \<Rightarrow> Inr b
             | (None, None) \<Rightarrow> Inl (RuntimeError ''Both models failed.''))
      in case fused of
           Inl e \<Rightarrow> Inl e
         | Inr final_prob \<Rightarrow>
             (let verdict = (if f_ge final_prob (Fin FUSION_THRESHOLD)
                             then ''Malicious'' else ''Safe'');
                  band = risk_band_from_prob final_prob;
                  debug = debug\<lparr>dbg_risk_band := Some band\<rparr>;
                  reasons = dedup_loop final_reasons {} [];
                  debug = debug\<lparr>dbg_reasons := Some reasons\<rparr>
              in Inr (final_prob, verdict, debug)))"

section \<open>Notions of the specification\<close>







text \<open>Deduplication that keeps the first occurrence of every string, in order.\<close>

fun keep_first :: "string list \<Rightarrow> string list" where
  "keep_first [] = []"
| "keep_first (x # xs) = x # keep_first (removeAll x xs)"

text \<open>A frame with the default index of \<open>pd.read_csv\<close>: the labels 0, 1, 2, ... in
  row order.\<close>

definition range_index :: "dataframe \<Rightarrow> bool" where
  "range_index d =
     (map fst (df_rows d) = map (\<lambda>i. PNum (Fin (real i))) [0..<length (df_rows d)])"

section \<open>Concrete inputs\<close>

text \<open>
  Python's \<open>float\<close> on a str of ASCII decimal digits, to instantiate the parser in
  closed examples. Every other str is rejected here; of those the examples below use
  only \<open>abc\<close>, which \<open>float\<close> rejects as well.
\<close>

definition float_str_digits :: str_parser where
  "float_str_digits s =
     (if s \<noteq> [] \<and> list_all (\<lambda>c. c \<in> set ''0123456789'') s
      then Some (Fin (real (foldl (\<lambda>a c. 10 * a + (of_char c - 48)) (0::nat) s)))
      else None)"

text \<open>A row whose network rule alone triggers (score 0.2), in a one-row frame.\<close>

definition net_only_frame :: dataframe where
  "net_only_frame = \<lparr>df_columns = [''total_events'', ''n_net_conn''],
     df_rows = [(PNum (Fin 0), [PNum (Fin 1000), PNum (Fin 6)])]\<rparr>"


text \<open>
  The frame that \<open>pd.read_csv\<close> builds from a file whose data lines have one field
  more than the header, here the header \<open>total_events,n_file_create\<close> with the lines
  \<open>5,10,2000\<close> and \<open>7,20,3000\<close>: the first field of each line becomes the index
  label, so the labels are 5 and 7.
\<close>

definition shifted_index_frame :: dataframe where
  "shifted_index_frame = \<lparr>df_columns = [''total_events'', ''n_file_create''],
     df_rows = [(PNum (Fin 5), [PNum (Fin 10), PNum (Fin 2000)]),
                (PNum (Fin 7), [PNum (Fin 20), PNum (Fin 3000)])]\<rparr>"

text \<open>A frame with a cell that is not a number: the column is read as str.\<close>

definition malformed_frame :: dataframe where
  "malformed_frame = \<lparr>df_columns = [''total_events'', ''n_file_create''],
     df_rows = [(PNum (Fin 0), [PStr ''abc'', PStr ''12''])]\<rparr>"

text \<open>A frame with the behavioural columns and no row, and a row without events whose
  raw counts are large.\<close>

definition empty_frame :: dataframe where
  "empty_frame = \<lparr>df_columns = [''total_events'', ''n_file_create''], df_rows = []\<rparr>"

definition no_events_row :: series where
  "no_events_row = [(''total_events'', PNum (Fin 0)), (''n_proc_create'', PNum (Fin 50)),
     (''n_file_create'', PNum (Fin 5000)), (''n_net_conn'', PNum (Fin 7))]"

text \<open>A static scorer that returns one probability 0.8, and one that raises.\<close>

definition static_08 :: static_scorer where
  "static_08 df = Inr ([0.8], [1], 0.5, [''B'', ''C'', ''D''])"

definition static_fails :: static_scorer where
  "static_fails df = Inl (OtherError ''model artifact missing'')"

section \<open>Coercion of the row fields\<close>


lemma py_float_error:
  "py_float fs (if truthy v then v else PNum (Fin 0)) = Inl e \<Longrightarrow> e = ValueError"
  by (cases v) (auto split: option.splits if_splits)


lemma coerce_count_error: "coerce_count fs row k = Inl e \<Longrightarrow> e = ValueError"
  by (simp add: coerce_count_def Let_def py_float_error)


lemma truediv_pos_ok: "f_gt tot (Fin 0) \<Longrightarrow> \<exists>q. py_truediv n tot = Inr q"
  by (cases tot; cases n) (auto simp: f_gt_def)


lemma coerce_ratio_error: "coerce_ratio fs row k n tot = Inl e \<Longrightarrow> e = ValueError"
  using truediv_pos_ok[of tot n] py_float_error[of fs "row_get row k (PNum (Fin 0))" e]
  by (auto simp: coerce_ratio_def Let_def split: if_splits)

lemma coerce_ratio_falsy:
  "\<not> truthy (row_get row k (PNum (Fin 0))) \<Longrightarrow> coerce_ratio fs row k n (Fin 0) = Inr (Fin 0)"
  by (simp add: coerce_ratio_def Let_def f_gt_def)

lemma read_locals_error: "read_locals fs row = Inl e \<Longrightarrow> e = ValueError"
  by (auto simp: read_locals_def try_then_def split: sum.splits
           dest: coerce_count_error coerce_ratio_error)







section \<open>The rules and the loop over the rows\<close>



lemma apply_rules_reasons_nonempty: "snd (apply_rules L) \<noteq> []"
  by (simp add: apply_rules_def Let_def)


lemma compute_behav_score_error: "compute_behav_score fs row = Inl e \<Longrightarrow> e = ValueError"
  by (auto simp: compute_behav_score_def split: sum.splits dest: read_locals_error)




lemma score_rows_error: "score_rows fs rows pl rf = Inl e \<Longrightarrow> e = ValueError"
proof (induction rows arbitrary: pl rf)
  case Nil
  then show ?case by simp
next
  case (Cons a rows)
  then show ?case
    by (cases a) (auto split: sum.splits dest: compute_behav_score_error)
qed

lemma score_rows_no_zero_label:
  "\<forall>r\<in>set rows. \<not> eq_zero (fst r) \<Longrightarrow> score_rows fs rows pl rf = Inr (pl', rf') \<Longrightarrow> rf' = rf"
proof (induction rows arbitrary: pl rf)
  case Nil
  then show ?case by simp
next
  case (Cons a rows)
  then show ?case
    by (cases a) (auto split: sum.splits)
qed

section \<open>The behavioural scorer as a whole\<close>




lemma predict_behav_error: "predict_behav fs df = Inl e \<Longrightarrow> e = ValueError"
  by (auto simp: predict_behav_def split: option.splits if_splits sum.splits dest: score_rows_error)


lemma range_labels:
  "map (\<lambda>i. PNum (Fin (real i))) [0..<Suc n] = PNum (Fin 0) # map (\<lambda>i. PNum (Fin (real i))) [1..<Suc n]"
  by (simp add: upt_rec)

lemma predict_behav_range_index:
  assumes ri: "range_index d" and ne: "\<not> df_empty d"
      and pb: "predict_behav fs (Some d) = Inr (probs, preds, thr, rs)"
  shows "\<exists>sc. compute_behav_score fs (snd (hd (iterrows d))) = Inr (sc, rs)"
proof -
  from ne obtain idx cells rest where rows: "df_rows d = (idx, cells) # rest"
    by (cases "df_rows d") (auto simp: df_empty_def)
  from ri rows have lab: "idx = PNum (Fin 0)"
                and labs: "map fst rest = map (\<lambda>i. PNum (Fin (real i))) [1..<Suc (length rest)]"
    using range_labels[of "length rest"] by (auto simp: range_index_def)
  have nz: "\<forall>r\<in>set (map (\<lambda>(idx, cells). (idx, zip (df_columns d) cells)) rest). \<not> eq_zero (fst r)"
  proof
    fix r assume "r \<in> set (map (\<lambda>(idx, cells). (idx, zip (df_columns d) cells)) rest)"
    then have "fst r \<in> set (map fst rest)" by force
    with labs show "\<not> eq_zero (fst r)" by auto
  qed
  from pb ne obtain rf where sr: "score_rows fs (iterrows d) [] [] = Inr (probs, rf)" and "rs = rf"
    by (auto simp: predict_behav_def split: sum.splits)
  then obtain sc rs0 where
    c: "compute_behav_score fs (zip (df_columns d) cells) = Inr (sc, rs0)" and
    r: "score_rows fs (map (\<lambda>(idx, cells). (idx, zip (df_columns d) cells)) rest) [sc] rs0 = Inr (probs, rf)"
    using rows lab by (auto simp: iterrows_def split: sum.splits)
  from score_rows_no_zero_label[OF nz r] have "rf = rs0" .
  with c \<open>rs = rf\<close> rows show ?thesis by (auto simp: iterrows_def)
qed

section \<open>Claims about the behavioural scorer\<close>

text \<open>The definitions to unfold when the scorer is run on a concrete frame.\<close>

lemmas behav_eval =
  predict_behav_def compute_behav_score_def read_locals_def try_then_def coerce_count_def
  coerce_ratio_def row_get_def apply_rules_def iterrows_def df_empty_def f_gt_def Let_def
  BEHAV_THRESHOLD_def no_events_result_def

text \<open>
  Claim C8. For an absent frame (\<open>None\<close>) or an empty one (\<open>df.empty\<close>), the
  behavioural scorer returns exactly one probability 0.0, one prediction 0, the
  threshold 0.6 and the single reason that no behavioural events were available.
\<close>

theorem predict_behav_no_input:
  assumes "df = None \<or> (\<exists>d. df = Some d \<and> df_empty d)"
  shows "predict_behav fs df =
           Inr ([0], [0], 0.6, [''No behavioural events available for analysis.''])"
  using assms by (auto simp: predict_behav_def no_events_result_def BEHAV_THRESHOLD_def)

theorem predict_behav_no_input_witness:
  "(Some empty_frame = None \<or> (\<exists>d. Some empty_frame = Some d \<and> df_empty d))
   \<and> predict_behav float_str_digits (Some empty_frame) =
        Inr ([0], [0], 0.6, [''No behavioural events available for analysis.''])
   \<and> predict_behav float_str_digits None =
        Inr ([0], [0], 0.6, [''No behavioural events available for analysis.''])"
  using predict_behav_no_input[of "Some empty_frame" float_str_digits]
        predict_behav_no_input[of None float_str_digits]
  by (simp add: empty_frame_def df_empty_def)

text \<open>
  Claim C9. When \<open>total_events\<close> is read as 0 and no ratio field is supplied (the
  column is absent, or its cell is falsy), the three ratios are 0 whatever the raw counts
  \<open>np\<close>, \<open>nf\<close> and \<open>nn\<close> are, and the row is scored. No row, and no frame, makes
  the scorer raise ZeroDivisionError.
\<close>

theorem ratios_zero_without_events:
  assumes "coerce_count fs row ''total_events'' = Inr (Fin 0)"
      and "\<not> truthy (row_get row ''ratio_proc_create'' (PNum (Fin 0)))"
      and "\<not> truthy (row_get row ''ratio_file_create'' (PNum (Fin 0)))"
      and "\<not> truthy (row_get row ''ratio_net_conn'' (PNum (Fin 0)))"
      and "coerce_count fs row ''n_proc_create'' = Inr np"
      and "coerce_count fs row ''n_file_create'' = Inr nf"
      and "coerce_count fs row ''n_net_conn'' = Inr nn"
  shows "read_locals fs row =
           Inr \<lparr>total = Fin 0, n_proc = np, n_file = nf, n_net = nn,
                ratio_proc = Fin 0, ratio_file = Fin 0, ratio_net = Fin 0\<rparr>
         \<and> (\<exists>r. compute_behav_score fs row = Inr r)
         \<and> compute_behav_score fs row' \<noteq> Inl ZeroDivisionError
         \<and> predict_behav fs df \<noteq> Inl ZeroDivisionError"
proof -
  have 1: "read_locals fs row =
           Inr \<lparr>total = Fin 0, n_proc = np, n_file = nf, n_net = nn,
                ratio_proc = Fin 0, ratio_file = Fin 0, ratio_net = Fin 0\<rparr>"
    using assms by (simp add: read_locals_def try_then_def coerce_ratio_falsy)
  then have 2: "\<exists>r. compute_behav_score fs row = Inr r"
    by (simp add: compute_behav_score_def)
  have 3: "compute_behav_score fs row' \<noteq> Inl ZeroDivisionError"
    using compute_behav_score_error[of fs row' ZeroDivisionError] by auto
  have 4: "predict_behav fs df \<noteq> Inl ZeroDivisionError"
    using predict_behav_error[of fs df ZeroDivisionError] by auto
  from 1 2 3 4 show ?thesis by simp
qed

theorem ratios_zero_without_events_witness:
  "coerce_count float_str_digits no_events_row ''total_events'' = Inr (Fin 0)
   \<and> \<not> truthy (row_get no_events_row ''ratio_proc_create'' (PNum (Fin 0)))
   \<and> \<not> truthy (row_get no_events_row ''ratio_file_create'' (PNum (Fin 0)))
   \<and> \<not> truthy (row_get no_events_row ''ratio_net_conn'' (PNum (Fin 0)))
   \<and> coerce_count float_str_digits no_events_row ''n_proc_create'' = Inr (Fin 50)
   \<and> coerce_count float_str_digits no_events_row ''n_file_create'' = Inr (Fin 5000)
   \<and> coerce_count float_str_digits no_events_row ''n_net_conn'' = Inr (Fin 7)
   \<and> read_locals float_str_digits no_events_row =
           Inr \<lparr>total = Fin 0, n_proc = Fin 50, n_file = Fin 5000, n_net = Fin 7,
                ratio_proc = Fin 0, ratio_file = Fin 0, ratio_net = Fin 0\<rparr>"
proof -
  have h: "coerce_count float_str_digits no_events_row ''total_events'' = Inr (Fin 0)"
      "\<not> truthy (row_get no_events_row ''ratio_proc_create'' (PNum (Fin 0)))"
      "\<not> truthy (row_get no_events_row ''ratio_file_create'' (PNum (Fin 0)))"
      "\<not> truthy (row_get no_events_row ''ratio_net_conn'' (PNum (Fin 0)))"
      "coerce_count float_str_digits no_events_row ''n_proc_create'' = Inr (Fin 50)"
      "coerce_count float_str_digits no_events_row ''n_file_create'' = Inr (Fin 5000)"
      "coerce_count float_str_digits no_events_row ''n_net_conn'' = Inr (Fin 7)"
    by (simp_all add: coerce_count_def row_get_def no_events_row_def)
  from ratios_zero_without_events[OF h] h show ?thesis by simp
qed






text \<open>The digit parser rejects the str \<open>abc\<close>.\<close>

lemma float_str_digits_abc: "float_str_digits ''abc'' = None"
  by (simp add: float_str_digits_def)



text \<open>
  Claim C7. The loop keeps the reasons of a row when its index label equals 0
  (\<open>if idx == 0\<close>), where its comment says "keep reasons from the first row only".
  Under the default index 0, 1, 2, ... the two agree (\<open>predict_behav_range_index\<close>
  above: the reasons returned are those of the first row). On the frame whose labels are
  5 and 7 they do not: both rows are scored 0.6 and predicted 1, the first row has the
  file-activity reason, and the reasons returned are empty (a list that no row yields,
  by \<open>apply_rules_reasons_nonempty\<close>).
\<close>

theorem reasons_lost_without_label_zero:
  "predict_behav float_str_digits (Some shifted_index_frame) = Inr ([0.6, 0.6], [1, 1], 0.6, [])
   \<and> compute_behav_score float_str_digits (snd (hd (iterrows shifted_index_frame)))
       = Inr (0.6, [reason_file])
   \<and> \<not> range_index shifted_index_frame"
  by (simp add: behav_eval shifted_index_frame_def range_index_def)

section \<open>The reasons loop of the fusion\<close>

lemma removeAll_filter_seen:
  "removeAll r (filter (\<lambda>x. x \<notin> seen) xs) = filter (\<lambda>x. x \<notin> insert r seen) xs"
  by (induction xs) auto

lemma dedup_loop_acc:
  "length reasons < 3 \<Longrightarrow>
     dedup_loop xs seen reasons = take 3 (reasons @ keep_first (filter (\<lambda>x. x \<notin> seen) xs))"
proof (induction xs arbitrary: seen reasons)
  case Nil
  then show ?case by simp
next
  case (Cons r rest)
  show ?case
  proof (cases "r \<in> seen")
    case True
    with Cons show ?thesis by simp
  next
    case False
    show ?thesis
    proof (cases "length reasons = 2")
      case True
      with False show ?thesis by simp
    next
      case n2: False
      with Cons.prems have "length (reasons @ [r]) < 3" by simp
      from Cons.IH[OF this, of "insert r seen"] False n2 show ?thesis
        by (simp add: removeAll_filter_seen)
    qed
  qed
qed

lemma dedup_loop_spec: "dedup_loop xs {} [] = take 3 (keep_first xs)"
  using dedup_loop_acc[of "[]" xs "{}"] by simp

lemma set_keep_first: "set (keep_first xs) = set xs"
  by (induction xs rule: keep_first.induct) auto

lemma distinct_keep_first: "distinct (keep_first xs)"
  by (induction xs rule: keep_first.induct) (auto simp: set_keep_first)

section \<open>The four cases of the fusion\<close>

lemma combine_both:
  assumes "predict_behav fs df = Inr (bp, bq, bt, br)" and "ps df = Inr (sp, sq, st, sr)"
  shows "combine_model_outputs fs ps df =
     (let p = f_add (f_mul (Fin 0.6) (np_mean sp)) (f_mul (Fin 0.4) (np_mean bp))
      in Inr (p, if f_ge p (Fin 0.5) then ''Malicious'' else ''Safe'',
           \<lparr>dbg_behavioral = Some (bt, np_mean bp), dbg_behavioral_error = None,
            dbg_static = Some (st, np_mean sp), dbg_static_error = None,
            dbg_risk_band = Some (risk_band_from_prob p),
            dbg_reasons = Some (dedup_loop (br @ sr) {} [])\<rparr>))"
  using assms
  by (simp add: combine_model_outputs_def Let_def FUSION_WEIGHTS_def FUSION_THRESHOLD_def
        empty_debug_def)

lemma combine_behav_only:
  assumes "predict_behav fs df = Inr (bp, bq, bt, br)" and "ps df = Inl e"
  shows "combine_model_outputs fs ps df =
     (let p = np_mean bp
      in Inr (p, if f_ge p (Fin 0.5) then ''Malicious'' else ''Safe'',
           \<lparr>dbg_behavioral = Some (bt, np_mean bp), dbg_behavioral_error = None,
            dbg_static = None, dbg_static_error = Some e,
            dbg_risk_band = Some (risk_band_from_prob p),
            dbg_reasons = Some (dedup_loop br {} [])\<rparr>))"
  using assms
  by (simp add: combine_model_outputs_def Let_def FUSION_WEIGHTS_def FUSION_THRESHOLD_def
        empty_debug_def)

lemma combine_static_only:
  assumes "predict_behav fs df = Inl e" and "ps df = Inr (sp, sq, st, sr)"
  shows "combine_model_outputs fs ps df =
     (let p = np_mean sp
      in Inr (p, if f_ge p (Fin 0.5) then ''Malicious'' else ''Safe'',
           \<lparr>dbg_behavioral = None, dbg_behavioral_error = Some e,
            dbg_static = Some (st, np_mean sp), dbg_static_error = None,
            dbg_risk_band = Some (risk_band_from_prob p),
            dbg_reasons = Some (dedup_loop sr {} [])\<rparr>))"
  using assms
  by (simp add: combine_model_outputs_def Let_def FUSION_WEIGHTS_def FUSION_THRESHOLD_def
        empty_debug_def)

lemma combine_none:
  assumes "predict_behav fs df = Inl e" and "ps df = Inl e'"
  shows "combine_model_outputs fs ps df = Inl (RuntimeError ''Both models failed.'')"
  using assms
  by (simp add: combine_model_outputs_def Let_def empty_debug_def)

lemma combine_Inr:
  assumes "combine_model_outputs fs ps df = Inr (p, verdict, dbg)"
  shows "verdict = (if f_ge p (Fin 0.5) then ''Malicious'' else ''Safe'')
         \<and> dbg_risk_band dbg = Some (risk_band_from_prob p)"
proof (cases "predict_behav fs df")
  case bl: (Inl e)
  show ?thesis
  proof (cases "ps df")
    case (Inl e')
    with bl assms show ?thesis by (simp add: combine_none)
  next
    case (Inr s)
    obtain sp sq st sr where "s = (sp, sq, st, sr)" by (cases s) auto
    with bl Inr assms show ?thesis by (auto simp: combine_static_only Let_def)
  qed
next
  case br: (Inr b)
  obtain bp bq bt brs where b: "b = (bp, bq, bt, brs)" by (cases b) auto
  show ?thesis
  proof (cases "ps df")
    case (Inl e')
    with br b assms show ?thesis by (auto simp: combine_behav_only Let_def)
  next
    case (Inr s)
    obtain sp sq st sr where "s = (sp, sq, st, sr)" by (cases s) auto
    with br b Inr assms show ?thesis by (auto simp: combine_both Let_def)
  qed
qed


section \<open>Claims about the fusion\<close>



text \<open>The behavioural scorer on the one-row frame and on the malformed frame.\<close>

lemma net_only_scores:
  "predict_behav float_str_digits (Some net_only_frame) = Inr ([0.2], [0], 0.6, [reason_net])"
  by (simp add: behav_eval net_only_frame_def)

lemma malformed_fails:
  "predict_behav float_str_digits (Some malformed_frame) = Inl ValueError"
  by (simp add: behav_eval malformed_frame_def float_str_digits_abc)


text \<open>The fusion run on the one-row frame with a static probability 0.8: the fused
  probability is 0.56, the verdict Malicious and the band Caution.\<close>

lemma fused_example:
  "combine_model_outputs float_str_digits static_08 (Some net_only_frame) =
     Inr (Fin 0.56, ''Malicious'',
       \<lparr>dbg_behavioral = Some (0.6, Fin 0.2), dbg_behavioral_error = None,
        dbg_static = Some (0.5, Fin 0.8), dbg_static_error = None,
        dbg_risk_band = Some ''Caution'',
        dbg_reasons = Some [reason_net, ''B'', ''C'']\<rparr>)"
proof -
  have s: "static_08 (Some net_only_frame) = Inr ([0.8], [1], 0.5, [''B'', ''C'', ''D''])"
    by (simp add: static_08_def)
  have r: "dedup_loop ([reason_net] @ [''B'', ''C'', ''D'']) {} [] = [reason_net, ''B'', ''C'']"
    by (simp add: reason_net_def)
  show ?thesis
    unfolding combine_both[where ps = static_08, OF net_only_scores s] r
    by (simp add: np_mean_def risk_band_from_prob_def f_ge_def f_le_def)
qed

text \<open>The band of a probability, by the comparisons that select it.\<close>

lemma band_cases:
  "(f_lt p (Fin 0.30) \<longrightarrow> risk_band_from_prob p = ''Safe'')
   \<and> (f_ge p (Fin 0.30) \<and> f_le p (Fin 0.70) \<longrightarrow> risk_band_from_prob p = ''Caution'')
   \<and> (f_gt p (Fin 0.70) \<longrightarrow> risk_band_from_prob p = ''High Risk'')"
  by (cases p) (auto simp: risk_band_from_prob_def f_ge_def f_gt_def f_le_def)

lemma band_finite:
  "risk_band_from_prob (Fin x) =
     (if x < 0.30 then ''Safe'' else if x \<le> 0.70 then ''Caution'' else ''High Risk'')"
  by (auto simp: risk_band_from_prob_def f_le_def)

text \<open>
  Claim C2. For every result of the fusion with probability \<open>p\<close>, the verdict is
  Malicious if \<open>p >= 0.50\<close> and Safe otherwise, and the risk band recorded is Safe if
  \<open>p < 0.30\<close>, Caution if \<open>0.30 <= p <= 0.70\<close>, High Risk if \<open>p > 0.70\<close>; for a
  finite \<open>p\<close> these three cases are exhaustive. The probability 0.30 is banded
  Caution.
\<close>

theorem verdict_and_band_thresholds:
  "(combine_model_outputs fs ps df = Inr (p, verdict, dbg) \<longrightarrow>
      verdict = (if f_ge p (Fin 0.50) then ''Malicious'' else ''Safe'')
      \<and> (\<exists>band. dbg_risk_band dbg = Some band
            \<and> (f_lt p (Fin 0.30) \<longrightarrow> band = ''Safe'')
            \<and> (f_ge p (Fin 0.30) \<and> f_le p (Fin 0.70) \<longrightarrow> band = ''Caution'')
            \<and> (f_gt p (Fin 0.70) \<longrightarrow> band = ''High Risk'')
            \<and> (\<forall>x. p = Fin x \<longrightarrow>
                  (verdict = ''Malicious'') = (0.50 \<le> x)
                  \<and> (verdict = ''Safe'') = (x < 0.50)
                  \<and> band = (if x < 0.30 then ''Safe''
                            else if x \<le> 0.70 then ''Caution'' else ''High Risk''))))
   \<and> risk_band_from_prob (Fin 0.30) = ''Caution''"
proof (intro conjI impI)
  assume a: "combine_model_outputs fs ps df = Inr (p, verdict, dbg)"
  note c = combine_Inr[OF a]
  from c show "verdict = (if f_ge p (Fin 0.50) then ''Malicious'' else ''Safe'')" by simp
  have "\<forall>x. p = Fin x \<longrightarrow>
          (verdict = ''Malicious'') = (0.50 \<le> x) \<and> (verdict = ''Safe'') = (x < 0.50)"
    using c by (auto simp: f_ge_def f_le_def)
  with c band_cases[of p] band_finite
  show "\<exists>band. dbg_risk_band dbg = Some band
            \<and> (f_lt p (Fin 0.30) \<longrightarrow> band = ''Safe'')
            \<and> (f_ge p (Fin 0.30) \<and> f_le p (Fin 0.70) \<longrightarrow> band = ''Caution'')
            \<and> (f_gt p (Fin 0.70) \<longrightarrow> band = ''High Risk'')
            \<and> (\<forall>x. p = Fin x \<longrightarrow>
                  (verdict = ''Malicious'') = (0.50 \<le> x)
                  \<and> (verdict = ''Safe'') = (x < 0.50)
                  \<and> band = (if x < 0.30 then ''Safe''
                            else if x \<le> 0.70 then ''Caution'' else ''High Risk''))"
    by (intro exI[of _ "risk_band_from_prob p"]) simp
next
  show "risk_band_from_prob (Fin 0.30) = ''Caution''"
    by (simp add: risk_band_from_prob_def f_le_def)
qed

theorem verdict_and_band_thresholds_witness:
  "combine_model_outputs float_str_digits static_08 (Some net_only_frame) =
     Inr (Fin 0.56, ''Malicious'',
       \<lparr>dbg_behavioral = Some (0.6, Fin 0.2), dbg_behavioral_error = None,
        dbg_static = Some (0.5, Fin 0.8), dbg_static_error = None,
        dbg_risk_band = Some ''Caution'',
        dbg_reasons = Some [reason_net, ''B'', ''C'']\<rparr>)
   \<and> f_ge (Fin 0.56) (Fin 0.50)
   \<and> f_ge (Fin 0.56) (Fin 0.30) \<and> f_le (Fin 0.56) (Fin 0.70)
   \<and> ''Malicious'' = (if f_ge (Fin 0.56) (Fin 0.50) then ''Malicious'' else ''Safe'')
   \<and> risk_band_from_prob (Fin 0.30) = ''Caution''"
  using verdict_and_band_thresholds[of float_str_digits static_08 "Some net_only_frame"
          "Fin 0.56" "''Malicious''"
          "\<lparr>dbg_behavioral = Some (0.6, Fin 0.2), dbg_behavioral_error = None,
            dbg_static = Some (0.5, Fin 0.8), dbg_static_error = None,
            dbg_risk_band = Some ''Caution'',
            dbg_reasons = Some [reason_net, ''B'', ''C'']\<rparr>"]
        fused_example
  by (simp add: f_ge_def f_le_def)

text \<open>
  Claim C10. If the fusion returns the verdict Malicious, then its probability is at
  least 0.50 and the risk band it records is not Safe: it is Caution or High Risk.
\<close>

theorem malicious_band_not_safe:
  assumes "combine_model_outputs fs ps df = Inr (p, verdict, dbg)"
      and "verdict = ''Malicious''"
  shows "f_ge p (Fin 0.50)
         \<and> dbg_risk_band dbg \<noteq> Some ''Safe''
         \<and> (dbg_risk_band dbg = Some ''Caution'' \<or> dbg_risk_band dbg = Some ''High Risk'')"
proof -
  note c = combine_Inr[OF assms(1)]
  from c assms(2) have ge: "f_ge p (Fin 0.50)" by (auto split: if_splits)
  then have "risk_band_from_prob p = ''Caution'' \<or> risk_band_from_prob p = ''High Risk''"
    by (cases p) (auto simp: risk_band_from_prob_def f_ge_def f_le_def)
  with c ge show ?thesis by auto
qed

theorem malicious_band_not_safe_witness:
  "combine_model_outputs float_str_digits static_08 (Some net_only_frame) =
     Inr (Fin 0.56, ''Malicious'',
       \<lparr>dbg_behavioral = Some (0.6, Fin 0.2), dbg_behavioral_error = None,
        dbg_static = Some (0.5, Fin 0.8), dbg_static_error = None,
        dbg_risk_band = Some ''Caution'',
        dbg_reasons = Some [reason_net, ''B'', ''C'']\<rparr>)
   \<and> Some ''Caution'' \<noteq> Some ''Safe''
   \<and> f_ge (Fin 0.56) (Fin 0.50)"
  using malicious_band_not_safe[OF fused_example] fused_example
  by simp

text \<open>
  Claim C4. The fusion raises exactly when both scorers raised, and what it raises then
  is the RuntimeError "Both models failed."; in that case it returns no result, so no
  default probability 0. When at least one scorer returned a result, the fusion returns
  a result.
\<close>

theorem fusion_fails_iff_both_fail:
  "((\<exists>e. combine_model_outputs fs ps df = Inl e)
      = ((\<exists>e1. predict_behav fs df = Inl e1) \<and> (\<exists>e2. ps df = Inl e2)))
   \<and> (combine_model_outputs fs ps df = Inl e \<longrightarrow> e = RuntimeError ''Both models failed.'')
   \<and> ((\<exists>e1. predict_behav fs df = Inl e1) \<and> (\<exists>e2. ps df = Inl e2) \<longrightarrow>
        combine_model_outputs fs ps df = Inl (RuntimeError ''Both models failed.'')
        \<and> combine_model_outputs fs ps df \<noteq> Inr (Fin 0, verdict, dbg))
   \<and> ((\<exists>r. predict_behav fs df = Inr r) \<or> (\<exists>r. ps df = Inr r) \<longrightarrow>
        (\<exists>res. combine_model_outputs fs ps df = Inr res))"
proof (cases "predict_behav fs df")
  case bl: (Inl e1)
  show ?thesis
  proof (cases "ps df")
    case (Inl e2)
    with bl show ?thesis by (simp add: combine_none)
  next
    case (Inr s)
    obtain sp sq st sr where "s = (sp, sq, st, sr)" by (cases s) auto
    with bl Inr show ?thesis by (simp add: combine_static_only Let_def)
  qed
next
  case br: (Inr b)
  obtain bp bq bt brs where b: "b = (bp, bq, bt, brs)" by (cases b) auto
  show ?thesis
  proof (cases "ps df")
    case (Inl e2)
    with br b show ?thesis by (simp add: combine_behav_only Let_def)
  next
    case (Inr s)
    obtain sp sq st sr where "s = (sp, sq, st, sr)" by (cases s) auto
    with br b Inr show ?thesis by (simp add: combine_both Let_def)
  qed
qed

theorem fusion_fails_iff_both_fail_witness:
  "predict_behav float_str_digits (Some malformed_frame) = Inl ValueError
   \<and> static_fails (Some malformed_frame) = Inl (OtherError ''model artifact missing'')
   \<and> combine_model_outputs float_str_digits static_fails (Some malformed_frame)
       = Inl (RuntimeError ''Both models failed.'')
   \<and> static_08 (Some malformed_frame) = Inr ([0.8], [1], 0.5, [''B'', ''C'', ''D''])
   \<and> (\<exists>res. combine_model_outputs float_str_digits static_08 (Some malformed_frame) = Inr res)
   \<and> predict_behav float_str_digits (Some net_only_frame) = Inr ([0.2], [0], 0.6, [reason_net])
   \<and> (\<exists>res. combine_model_outputs float_str_digits static_fails (Some net_only_frame) = Inr res)"
proof -
  have sf: "static_fails (Some malformed_frame) = Inl (OtherError ''model artifact missing'')"
    by (simp add: static_fails_def)
  have s8: "static_08 (Some malformed_frame) = Inr ([0.8], [1], 0.5, [''B'', ''C'', ''D''])"
    by (simp add: static_08_def)
  note t1 = fusion_fails_iff_both_fail[of float_str_digits static_fails "Some malformed_frame"]
  note t2 = fusion_fails_iff_both_fail[of float_str_digits static_08 "Some malformed_frame"]
  note t3 = fusion_fails_iff_both_fail[of float_str_digits static_fails "Some net_only_frame"]
  have a: "combine_model_outputs float_str_digits static_fails (Some malformed_frame)
       = Inl (RuntimeError ''Both models failed.'')"
    using t1 malformed_fails sf by blast
  have b: "\<exists>res. combine_model_outputs float_str_digits static_08 (Some malformed_frame) = Inr res"
    using t2 s8 by blast
  have c: "\<exists>res. combine_model_outputs float_str_digits static_fails (Some net_only_frame) = Inr res"
    using t3 net_only_scores by blast
  from a b c malformed_fails sf s8 net_only_scores show ?thesis by simp
qed

text \<open>
  Claim C3. The loop over the behavioural reasons followed by the static reasons yields
  the first three entries of their concatenation with every repeated string dropped
  after its first occurrence; the fusion records that list when both scorers returned.
  The reasons A, B and B, C, D fuse to A, B, C.
\<close>

theorem fused_reasons_dedup:
  "dedup_loop (b @ s) {} [] = take 3 (keep_first (b @ s))
   \<and> length (dedup_loop (b @ s) {} []) \<le> 3
   \<and> distinct (keep_first (b @ s)) \<and> set (keep_first (b @ s)) = set b \<union> set s
   \<and> (predict_behav fs df = Inr (bp, bq, bt, br) \<and> ps df = Inr (sp, sq, st, sr)
        \<and> combine_model_outputs fs ps df = Inr (p, verdict, dbg) \<longrightarrow>
        dbg_reasons dbg = Some (take 3 (keep_first (br @ sr))))
   \<and> dedup_loop ([''A'', ''B''] @ [''B'', ''C'', ''D'']) {} [] = [''A'', ''B'', ''C'']"
proof (intro conjI impI)
  show "dedup_loop (b @ s) {} [] = take 3 (keep_first (b @ s))" by (rule dedup_loop_spec)
  show "length (dedup_loop (b @ s) {} []) \<le> 3" by (simp add: dedup_loop_spec)
  show "distinct (keep_first (b @ s))" by (rule distinct_keep_first)
  show "set (keep_first (b @ s)) = set b \<union> set s" by (simp add: set_keep_first)
  show "dedup_loop ([''A'', ''B''] @ [''B'', ''C'', ''D'']) {} [] = [''A'', ''B'', ''C'']" by simp
next
  assume "predict_behav fs df = Inr (bp, bq, bt, br) \<and> ps df = Inr (sp, sq, st, sr)
        \<and> combine_model_outputs fs ps df = Inr (p, verdict, dbg)"
  then show "dbg_reasons dbg = Some (take 3 (keep_first (br @ sr)))"
    by (auto simp: combine_both Let_def dedup_loop_spec)
qed

theorem fused_reasons_dedup_witness:
  "predict_behav float_str_digits (Some net_only_frame) = Inr ([0.2], [0], 0.6, [reason_net])
   \<and> static_08 (Some net_only_frame) = Inr ([0.8], [1], 0.5, [''B'', ''C'', ''D''])
   \<and> combine_model_outputs float_str_digits static_08 (Some net_only_frame) =
     Inr (Fin 0.56, ''Malicious'',
       \<lparr>dbg_behavioral = Some (0.6, Fin 0.2), dbg_behavioral_error = None,
        dbg_static = Some (0.5, Fin 0.8), dbg_static_error = None,
        dbg_risk_band = Some ''Caution'',
        dbg_reasons = Some [reason_net, ''B'', ''C'']\<rparr>)
   \<and> Some [reason_net, ''B'', ''C''] = Some (take 3 (keep_first ([reason_net] @ [''B'', ''C'', ''D''])))
   \<and> take 3 (keep_first ([''A'', ''B''] @ [''B'', ''C'', ''D''])) = [''A'', ''B'', ''C'']"
  using fused_reasons_dedup[of "[''A'', ''B'']" "[''B'', ''C'', ''D'']" float_str_digits
          "Some net_only_frame" "[0.2]" "[0]" "0.6" "[reason_net]" static_08
          "[0.8]" "[1]" "0.5" "[''B'', ''C'', ''D'']" "Fin 0.56" "''Malicious''"
          "\<lparr>dbg_behavioral = Some (0.6, Fin 0.2), dbg_behavioral_error = None,
            dbg_static = Some (0.5, Fin 0.8), dbg_static_error = None,
            dbg_risk_band = Some ''Caution'',
            dbg_reasons = Some [reason_net, ''B'', ''C'']\<rparr>"]
        fused_example net_only_scores
  by (simp add: static_08_def)

end
